theory Spec2Isabelle
  imports Complex_Main "HOL-Library.Char_ord" "HOL-Library.List_Lexorder"
    "HOL-Library.Product_Lexorder"
begin

section \<open>Numbers of the data frames\<close>

text \<open>
  A numeric cell of a pandas column is a float64. It is modelled as an exact rational, a
  missing value (\<open>NaN\<close>) or one of the two infinities that a division by zero produces.
  Rounding error of the floating-point operations and the sign of zero are not modelled:
  a zero denominator counts as \<open>+0.0\<close>.
\<close>

datatype flt = NaN | NInf | Fin rat | PInf

fun fneg :: "flt \<Rightarrow> flt" where
  "fneg NaN = NaN"
| "fneg NInf = PInf"
| "fneg (Fin a) = Fin (- a)"
| "fneg PInf = NInf"

fun fadd :: "flt \<Rightarrow> flt \<Rightarrow> flt" where
  "fadd NaN b = NaN"
| "fadd a NaN = NaN"
| "fadd (Fin a) (Fin b) = Fin (a + b)"
| "fadd PInf NInf = NaN"
| "fadd NInf PInf = NaN"
| "fadd PInf b = PInf"
| "fadd a PInf = PInf"
| "fadd NInf b = NInf"
| "fadd a NInf = NInf"

definition fsub :: "flt \<Rightarrow> flt \<Rightarrow> flt" where
  "fsub a b = fadd a (fneg b)"

definition signed_inf :: "bool \<Rightarrow> flt" where
  "signed_inf positive = (if positive then PInf else NInf)"

fun fmul :: "flt \<Rightarrow> flt \<Rightarrow> flt" where
  "fmul NaN b = NaN"
| "fmul a NaN = NaN"
| "fmul (Fin a) (Fin b) = Fin (a * b)"
| "fmul (Fin a) PInf = (if a = 0 then NaN else signed_inf (0 < a))"
| "fmul (Fin a) NInf = (if a = 0 then NaN else signed_inf (a < 0))"
| "fmul PInf (Fin b) = (if b = 0 then NaN else signed_inf (0 < b))"
| "fmul NInf (Fin b) = (if b = 0 then NaN else signed_inf (b < 0))"
| "fmul PInf PInf = PInf"
| "fmul NInf NInf = PInf"
| "fmul PInf NInf = NInf"
| "fmul NInf PInf = NInf"

fun fdiv :: "flt \<Rightarrow> flt \<Rightarrow> flt" where
  "fdiv NaN b = NaN"
| "fdiv a NaN = NaN"
| "fdiv (Fin a) (Fin b) =
     (if b \<noteq> 0 then Fin (a / b) else if a = 0 then NaN else signed_inf (0 < a))"
| "fdiv (Fin a) PInf = Fin 0"
| "fdiv (Fin a) NInf = Fin 0"
| "fdiv PInf (Fin b) = signed_inf (0 \<le> b)"
| "fdiv NInf (Fin b) = signed_inf (b < 0)"
| "fdiv PInf PInf = NaN"
| "fdiv PInf NInf = NaN"
| "fdiv NInf PInf = NaN"
| "fdiv NInf NInf = NaN"

text \<open>The position of a value in a sorted column; numpy sorts \<open>NaN\<close> last.\<close>

fun fkey :: "flt \<Rightarrow> nat \<times> rat" where
  "fkey NInf = (0, 0)"
| "fkey (Fin a) = (1, a)"
| "fkey PInf = (2, 0)"
| "fkey NaN = (3, 0)"



text \<open>
  \<open>round(0)\<close> of numpy and Python's built-in \<open>round\<close> both round to the nearest
  integer and send a tie to the even neighbour.
\<close>

definition round_half_even :: "rat \<Rightarrow> int" where
  "round_half_even x =
     (let f = \<lfloor>x\<rfloor>; d = x - of_int f
      in if d < 1 / 2 then f else if 1 / 2 < d then f + 1 else if even f then f else f + 1)"

fun fround :: "flt \<Rightarrow> flt" where
  "fround (Fin a) = Fin (of_int (round_half_even a))"
| "fround a = a"

text \<open>
  \<open>Series.median\<close>: the missing values are skipped; the rest is sorted and the middle
  element taken, or the mean of the two middle elements; an empty rest gives \<open>NaN\<close>.
\<close>

definition median :: "flt list \<Rightarrow> flt" where
  "median xs =
     (let s = sort_key fkey (filter (\<lambda>x. x \<noteq> NaN) xs); n = length s
      in if n = 0 then NaN
         else if odd n then s ! (n div 2)
         else fdiv (fadd (s ! (n div 2 - 1)) (s ! (n div 2))) (Fin 2))"

text \<open>\<open>count\<close> of a column: the number of cells that are not missing.\<close>

definition count_notna :: "flt list \<Rightarrow> nat" where
  "count_notna xs = length (filter (\<lambda>x. x \<noteq> NaN) xs)"

section \<open>Strings\<close>











section \<open>Records of the tables\<close>

text \<open>
  One row of the housing table, with the columns the pipeline reads. A text cell that is
  missing is \<open>None\<close>. The \<open>Date\<close> column holds text in the raw and the cleaned
  table and a parsed date after feature engineering, so its type is a parameter.
\<close>

record 'd listing =
  Suburb :: "string option"
  Rooms :: flt
  Type :: "string option"
  Price :: flt
  Date :: "'d"
  Distance :: flt
  Car :: flt
  Landsize :: flt

section \<open>data_cleaning.py\<close>







section \<open>Grouping\<close>

text \<open>
  \<open>groupby\<close> drops the rows whose key is missing and lists the groups in ascending
  order of the key.
\<close>

fun dropna :: "'a option list \<Rightarrow> 'a list" where
  "dropna [] = []"
| "dropna (None # xs) = dropna xs"
| "dropna (Some x # xs) = x # dropna xs"

definition group_keys :: "('r \<Rightarrow> 'k::linorder option) \<Rightarrow> 'r list \<Rightarrow> 'k list" where
  "group_keys key df = sort (remdups (dropna (map key df)))"

definition group_rows :: "('r \<Rightarrow> 'k option) \<Rightarrow> 'r list \<Rightarrow> 'k \<Rightarrow> 'r list" where
  "group_rows key df k = filter (\<lambda>r. key r = Some k) df"

definition groupby_agg ::
  "('r \<Rightarrow> 'k::linorder option) \<Rightarrow> ('r list \<Rightarrow> 'v) \<Rightarrow> 'r list \<Rightarrow> ('k \<times> 'v) list" where
  "groupby_agg key agg df = map (\<lambda>k. (k, agg (group_rows key df k))) (group_keys key df)"

text \<open>\<open>mean\<close> and \<open>first\<close> of a group skip the missing cells, as \<open>median\<close> does.\<close>

definition mean :: "flt list \<Rightarrow> flt" where
  "mean xs =
     (let v = filter (\<lambda>x. x \<noteq> NaN) xs
      in if v = [] then NaN else fdiv (foldl fadd (Fin 0) v) (Fin (of_nat (length v))))"

definition first_valid :: "flt list \<Rightarrow> flt" where
  "first_valid xs = (case filter (\<lambda>x. x \<noteq> NaN) xs of [] \<Rightarrow> NaN | x # _ \<Rightarrow> x)"

text \<open>The sort key of \<open>sort_values(ascending=False)\<close>: largest first, \<open>NaN\<close> last.\<close>

fun fkey_desc :: "flt \<Rightarrow> nat \<times> rat" where
  "fkey_desc PInf = (0, 0)"
| "fkey_desc (Fin a) = (1, - a)"
| "fkey_desc NInf = (2, 0)"
| "fkey_desc NaN = (3, 0)"

section \<open>feature_engineering.py\<close>

datatype error = ValueError | OutOfBoundsDatetime | OverflowError | IndexError | KeyError string

record timestamp =
  year :: nat
  month :: nat
  day :: nat

definition is_digit :: "char \<Rightarrow> bool" where
  "is_digit c = (let n = (of_char c :: nat) in 48 \<le> n \<and> n \<le> 57)"

definition digit_val :: "char \<Rightarrow> nat" where
  "digit_val c = of_char c - 48"

definition digit_char :: "nat \<Rightarrow> char" where
  "digit_char n = char_of (48 + n)"

text \<open>
  The directives of the format \<open>%d/%m/%Y\<close>, as the regular expressions of strptime
  read them: a day is \<open>1\<close> to \<open>31\<close>, with an optional leading zero or a leading
  blank before a single digit, a month is \<open>1\<close> to \<open>12\<close> with an optional leading
  zero, a year is exactly four digits.
\<close>

definition parse_day :: "string \<Rightarrow> nat option" where
  "parse_day s =
     (case s of
        [a] \<Rightarrow> if is_digit a \<and> 1 \<le> digit_val a then Some (digit_val a) else None
      | [a, b] \<Rightarrow>
          if a = CHR '' '' \<and> is_digit b \<and> 1 \<le> digit_val b then Some (digit_val b)
          else if is_digit a \<and> is_digit b \<and> 1 \<le> 10 * digit_val a + digit_val b
                  \<and> 10 * digit_val a + digit_val b \<le> 31
          then Some (10 * digit_val a + digit_val b) else None
      | _ \<Rightarrow> None)"

definition parse_month :: "string \<Rightarrow> nat option" where
  "parse_month s =
     (case s of
        [a] \<Rightarrow> if is_digit a \<and> 1 \<le> digit_val a then Some (digit_val a) else None
      | [a, b] \<Rightarrow>
          if is_digit a \<and> is_digit b \<and> 1 \<le> 10 * digit_val a + digit_val b
             \<and> 10 * digit_val a + digit_val b \<le> 12
          then Some (10 * digit_val a + digit_val b) else None
      | _ \<Rightarrow> None)"

definition parse_year :: "string \<Rightarrow> nat option" where
  "parse_year s =
     (case s of
        [a, b, c, d] \<Rightarrow>
          if is_digit a \<and> is_digit b \<and> is_digit c \<and> is_digit d
          then Some (1000 * digit_val a + 100 * digit_val b + 10 * digit_val c + digit_val d)
          else None
      | _ \<Rightarrow> None)"

definition is_leap :: "nat \<Rightarrow> bool" where
  "is_leap y = (y mod 4 = 0 \<and> (y mod 100 \<noteq> 0 \<or> y mod 400 = 0))"

definition days_in_month :: "nat \<Rightarrow> nat \<Rightarrow> nat" where
  "days_in_month y m =
     (if m = 2 then (if is_leap y then 29 else 28)
      else if m = 4 \<or> m = 6 \<or> m = 9 \<or> m = 11 then 30 else 31)"

text \<open>
  The days a nanosecond timestamp can hold at midnight: 22 September 1677 to
  11 April 2262.
\<close>

definition in_bounds :: "nat \<Rightarrow> nat \<Rightarrow> nat \<Rightarrow> bool" where
  "in_bounds y m d = ((1677, 9, 22) \<le> (y, m, d) \<and> (y, m, d) \<le> (2262, 4, 11))"

definition strptime :: "string \<Rightarrow> error + timestamp" where
  "strptime s =
     (let not_slash = (\<lambda>c. c \<noteq> CHR ''/'');
          d_text = takeWhile not_slash s; rest = dropWhile not_slash s;
          m_text = takeWhile not_slash (tl rest); rest' = dropWhile not_slash (tl rest);
          y_text = tl rest'
      in if rest = [] \<or> rest' = [] then Inl ValueError
         else case (parse_day d_text, parse_month m_text, parse_year y_text) of
                (Some d, Some m, Some y) \<Rightarrow>
                  if y = 0 \<or> days_in_month y m < d then Inl ValueError
                  else if \<not> in_bounds y m d then Inl OutOfBoundsDatetime
                  else Inr \<lparr>year = y, month = m, day = d\<rparr>
              | _ \<Rightarrow> Inl ValueError)"

text \<open>
  One cell of \<open>pd.to_datetime(..., format="%d/%m/%Y")\<close>: a missing cell, the empty
  string and the spellings of NaT and NaN give the missing date NaT.
\<close>

definition to_datetime :: "string option \<Rightarrow> error + timestamp option" where
  "to_datetime cell =
     (case cell of
        None \<Rightarrow> Inr None
      | Some s \<Rightarrow>
          if s = [] \<or> s \<in> set [''NaT'', ''nat'', ''NAT'', ''nan'', ''NaN'', ''NAN''] then Inr None
          else (case strptime s of Inl e \<Rightarrow> Inl e | Inr t \<Rightarrow> Inr (Some t)))"

function dec :: "nat \<Rightarrow> string" where
  "dec n = (if n < 10 then [digit_char n] else dec (n div 10) @ [digit_char (n mod 10)])"
  by pat_completeness auto
termination
  by (relation "measure id") auto

declare dec.simps [simp del]

text \<open>
  \<open>dt.to_period("Q").astype(str)\<close>: the quarter of a month is
  \<open>(month - 1) // 3 + 1\<close>, and the period prints as the year, \<open>Q\<close> and the quarter.
\<close>

definition quarter_of :: "timestamp \<Rightarrow> nat" where
  "quarter_of t = (month t - 1) div 3 + 1"

definition quarter_label :: "timestamp option \<Rightarrow> string" where
  "quarter_label t =
     (case t of None \<Rightarrow> ''NaT'' | Some t \<Rightarrow> dec (year t) @ ''Q'' @ dec (quarter_of t))"

definition type_map :: "string \<rightharpoonup> string" where
  "type_map = map_of [(''h'', ''House''), (''u'', ''Unit''), (''t'', ''Townhouse'')]"

record featured = "timestamp option listing" +
  Price_per_sqm :: flt
  Year :: "nat option"
  Month :: "nat option"
  Quarter :: string
  PropertyType :: "string option"

definition add_features_row :: "string option listing \<Rightarrow> timestamp option \<Rightarrow> featured" where
  "add_features_row r t =
     \<lparr>Suburb = Suburb r, Rooms = Rooms r, Type = Type r, Price = Price r, Date = t,
      Distance = Distance r, Car = Car r, Landsize = Landsize r,
      Price_per_sqm = fdiv (Price r) (Landsize r),
      Year = map_option year t,
      Month = map_option month t,
      Quarter = quarter_label t,
      PropertyType = Option.bind (Type r) type_map\<rparr>"

text \<open>
  The date column is parsed as a whole: the first cell that does not match the format
  raises, and no table is returned.
\<close>

fun add_features :: "string option listing list \<Rightarrow> error + featured list" where
  "add_features [] = Inr []"
| "add_features (r # df) =
     (case to_datetime (Date r) of
        Inl e \<Rightarrow> Inl e
      | Inr t \<Rightarrow> (case add_features df of
                   Inl e \<Rightarrow> Inl e
                 | Inr df' \<Rightarrow> Inr (add_features_row r t # df')))"

text \<open>
  \<open>value_counts\<close>: the distinct values that are not missing, in the order of their first
  appearance, each with the number of its occurrences; then a sort by descending count.
  pandas promises no order among values of equal count; the sort is taken to be stable,
  so that values of equal count keep the order of their first appearance.
\<close>

fun uniques :: "'a list \<Rightarrow> 'a list" where
  "uniques [] = []"
| "uniques (x # xs) = x # filter (\<lambda>y. y \<noteq> x) (uniques xs)"

definition value_counts :: "'a option list \<Rightarrow> ('a \<times> nat) list" where
  "value_counts col =
     (let vals = dropna col
      in sort_key (\<lambda>(k, c). - int c) (map (\<lambda>k. (k, count_list vals k)) (uniques vals)))"

text \<open>
  \<open>head(n)\<close>: the first \<open>n\<close> rows; all but the last \<open>-n\<close> rows when \<open>n\<close> is
  negative. The parameter \<open>n\<close> of \<open>get_top_suburbs\<close> defaults to 20, the value that
  \<open>main\<close> passes.
\<close>

definition head :: "int \<Rightarrow> 'a list \<Rightarrow> 'a list" where
  "head n xs = (if 0 \<le> n then take (nat n) xs else take (length xs - nat (- n)) xs)"

definition get_top_suburbs :: "('d, 'm) listing_scheme list \<Rightarrow> int \<Rightarrow> string list" where
  "get_top_suburbs df n = map fst (head n (value_counts (map Suburb df)))"

record annotated = featured +
  Suburb_Median :: flt
  Price_Deviation :: flt

definition suburb_medians :: "('d, 'm) listing_scheme list \<Rightarrow> (string \<times> flt) list" where
  "suburb_medians df = groupby_agg Suburb (\<lambda>g. median (map Price g)) df"

text \<open>\<open>Series.map\<close> with a series: a key that is missing or not in the index maps to NaN.\<close>

definition map_series :: "(string \<times> flt) list \<Rightarrow> string option \<Rightarrow> flt" where
  "map_series series cell =
     (case cell of None \<Rightarrow> NaN
      | Some k \<Rightarrow> (case map_of series k of None \<Rightarrow> NaN | Some v \<Rightarrow> v))"

definition price_deviation :: "flt \<Rightarrow> flt \<Rightarrow> flt" where
  "price_deviation price suburb_median = fdiv (fsub price suburb_median) suburb_median"

text \<open>The table that \<open>add_outlier_detection\<close> returns, as a value.\<close>

definition add_outlier_detection :: "featured list \<Rightarrow> annotated list" where
  "add_outlier_detection df =
     (let medians = suburb_medians df
      in map (\<lambda>r. featured.extend r
                    (annotated.fields (map_series medians (Suburb r))
                       (price_deviation (Price r) (map_series medians (Suburb r))))) df)"

definition isin :: "string option \<Rightarrow> string list \<Rightarrow> bool" where
  "isin cell vals = (case cell of None \<Rightarrow> False | Some s \<Rightarrow> s \<in> set vals)"

definition cohort_subset :: "int \<Rightarrow> featured list \<Rightarrow> featured list" where
  "cohort_subset n df = (let top_suburbs = get_top_suburbs df n in filter (\<lambda>r. isin (Suburb r) top_suburbs) df)"

text \<open>
  The analysis table of \<open>main\<close>: the cohort is selected and filtered first, the outlier
  columns are computed on the filtered table. \<open>main\<close> fixes the cohort size to 20.
\<close>

definition analysis_dataset :: "int \<Rightarrow> featured list \<Rightarrow> annotated list" where
  "analysis_dataset n df = add_outlier_detection (cohort_subset n df)"

definition main_analysis :: "string option listing list \<Rightarrow> error + annotated list" where
  "main_analysis cleaned =
     (case add_features cleaned of Inl e \<Rightarrow> Inl e | Inr df \<Rightarrow> Inr (analysis_dataset 20 df))"

section \<open>generate_insights.py\<close>

text \<open>
  One row of a summary table; \<open>group_key\<close> is the index column (\<open>Suburb\<close> or
  \<open>Quarter\<close>) that \<open>reset_index\<close> turns into a column. The whole table is rounded
  with \<open>round(0)\<close>, which leaves the integer count as it is.
\<close>

record price_stats =
  group_key :: string
  Median_Price :: flt
  Mean_Price :: flt
  Transaction_Count :: nat
  Median_Price_per_sqm :: flt

record suburb_stats = price_stats +
  Median_Rooms :: flt
  Distance_to_CBD :: flt

definition suburb_comparison :: "'m featured_scheme list \<Rightarrow> suburb_stats list" where
  "suburb_comparison df =
     (let stats = map (\<lambda>(k, g).
                    \<lparr>group_key = k,
                     Median_Price = fround (median (map Price g)),
                     Mean_Price = fround (mean (map Price g)),
                     Transaction_Count = count_notna (map Price g),
                     Median_Price_per_sqm = fround (median (map Price_per_sqm g)),
                     Median_Rooms = fround (median (map Rooms g)),
                     Distance_to_CBD = fround (first_valid (map Distance g))\<rparr>)
                  (groupby_agg Suburb id df)
      in sort_key (\<lambda>r. fkey_desc (Median_Price r)) stats)"

definition quarterly_trends :: "'m featured_scheme list \<Rightarrow> price_stats list" where
  "quarterly_trends df =
     map (\<lambda>(k, g).
            \<lparr>group_key = k,
             Median_Price = fround (median (map Price g)),
             Mean_Price = fround (mean (map Price g)),
             Transaction_Count = count_notna (map Price g),
             Median_Price_per_sqm = fround (median (map Price_per_sqm g))\<rparr>)
       (groupby_agg (\<lambda>r. Some (Quarter r)) id df)"



record premium_row =
  pivot_Suburb :: string
  medians :: "(string \<times> flt) list"
  House_vs_Unit_Premium :: flt

definition cell :: "premium_row \<Rightarrow> string \<Rightarrow> flt" where
  "cell row t = (case map_of (medians row) t of None \<Rightarrow> NaN | Some v \<Rightarrow> v)"










text \<open>
  The fourth insight of \<open>main\<close>: \<open>.values[0]\<close> on the rows of a quarter raises
  IndexError when the table has no row of that quarter.
\<close>

definition first_median_price :: "price_stats list \<Rightarrow> string \<Rightarrow> error + flt" where
  "first_median_price quarterly q =
     (case filter (\<lambda>row. group_key row = q) quarterly of
        [] \<Rightarrow> Inl IndexError
      | row # _ \<Rightarrow> Inr (Median_Price row))"

definition market_trend :: "'m featured_scheme list \<Rightarrow> error + flt \<times> flt \<times> flt" where
  "market_trend df =
     (let quarterly = quarterly_trends df
      in case first_median_price quarterly ''2016Q2'' of
           Inl e \<Rightarrow> Inl e
         | Inr q2_2016 \<Rightarrow>
             (case first_median_price quarterly ''2017Q3'' of
                Inl e \<Rightarrow> Inl e
              | Inr q3_2017 \<Rightarrow>
                  Inr (fmul (fdiv (fsub q3_2017 q2_2016) q2_2016) (Fin 100), q2_2016, q3_2017)))"

section \<open>create_dashboard.py\<close>







section \<open>Data frames as objects\<close>

text \<open>
  \<open>add_outlier_detection\<close> receives a reference to the caller's table, copies the table
  and assigns two columns to the copy. To follow the references, a table in memory is a
  frame: its rows and the two outlier columns, each absent or present. The memory is the
  list of the frames allocated so far and a reference is a position in it.
\<close>

record frame =
  rows :: "featured list"
  Suburb_Median_column :: "flt list option"
  Price_Deviation_column :: "flt list option"

type_synonym memory = "frame list"

definition copy :: "memory \<Rightarrow> nat \<Rightarrow> memory \<times> nat" where
  "copy mem df = (mem @ [mem ! df], length mem)"

definition read_column :: "string \<Rightarrow> flt list option \<Rightarrow> error + flt list" where
  "read_column name col = (case col of None \<Rightarrow> Inl (KeyError name) | Some c \<Rightarrow> Inr c)"

definition add_outlier_detection_object :: "memory \<Rightarrow> nat \<Rightarrow> error + memory \<times> nat" where
  "add_outlier_detection_object mem df0 =
     (let (mem, df) = copy mem df0;
          medians = suburb_medians (rows (mem ! df));
          mem = mem[df := (mem ! df)\<lparr>Suburb_Median_column :=
                   Some (map (\<lambda>r. map_series medians (Suburb r)) (rows (mem ! df)))\<rparr>]
      in case read_column ''Suburb_Median'' (Suburb_Median_column (mem ! df)) of
           Inl e \<Rightarrow> Inl e
         | Inr suburb_median \<Rightarrow>
             Inr (mem[df := (mem ! df)\<lparr>Price_Deviation_column :=
                      Some (map2 price_deviation (map Price (rows (mem ! df))) suburb_median)\<rparr>],
                  df))"

text \<open>The rows of a frame that has both outlier columns, each with its two cells.\<close>

definition table_of :: "frame \<Rightarrow> annotated list option" where
  "table_of f =
     (case (Suburb_Median_column f, Price_Deviation_column f) of
        (Some ms, Some ds) \<Rightarrow>
          if length ms = length (rows f) \<and> length ds = length (rows f)
          then Some (map (\<lambda>(r, m, d). featured.extend r (annotated.fields m d))
                       (zip (rows f) (zip ms ds)))
          else None
      | _ \<Rightarrow> None)"

section \<open>Words of the specification\<close>


text \<open>
  The words of the cohort contract: the number of transactions of a suburb, the position
  of the first row that names it, and the ranking by descending count with ties in the
  order of the first encounter.
\<close>

definition transaction_count :: "('d, 'm) listing_scheme list \<Rightarrow> string \<Rightarrow> nat" where
  "transaction_count df s = length (filter (\<lambda>r. Suburb r = Some s) df)"



section \<open>Example tables\<close>



definition june_sale :: "string option listing" where
  "june_sale =
     \<lparr>Suburb = Some ''Reservoir'', Rooms = Fin 3, Type = Some ''h'', Price = Fin 700000,
      Date = Some ''15/06/2016'', Distance = Fin 11, Car = Fin 1, Landsize = Fin 600\<rparr>"

text \<open>
  A row of the analysis table as the insights and the dashboard read it back: a sale with
  its suburb, property type, price and quarter.
\<close>

definition sale :: "string \<Rightarrow> string \<Rightarrow> rat \<Rightarrow> string \<Rightarrow> featured" where
  "sale suburb type price quarter =
     \<lparr>Suburb = Some suburb, Rooms = Fin 3, Type = None, Price = Fin price, Date = None,
      Distance = Fin 9, Car = Fin 1, Landsize = Fin 500,
      Price_per_sqm = Fin (price / 500), Year = None, Month = None,
      Quarter = quarter, PropertyType = Some type\<rparr>"

definition four_sales :: "featured list" where
  "four_sales =
     [sale ''Preston'' ''House'' 900000 ''2016Q2'',
      sale ''Coburg'' ''House'' 800000 ''2016Q2'',
      sale ''Coburg'' ''Unit'' 500000 ''2016Q3'',
      sale ''Glenroy'' ''Unit'' 400000 ''2016Q3'']"

definition coburg_annotated :: annotated where
  "coburg_annotated =
     featured.extend (sale ''Coburg'' ''House'' 800000 ''2016Q2'')
       (annotated.fields (Fin 650000) (Fin (3 / 13)))"

definition cohort_frame :: frame where
  "cohort_frame =
     \<lparr>rows = cohort_subset 2 four_sales, Suburb_Median_column = None,
      Price_Deviation_column = None\<rparr>"

definition unpriced_sale :: featured where
  "unpriced_sale = (sale ''Coburg'' ''House'' 0 ''2016Q2'')\<lparr>Price := NaN, Price_per_sqm := NaN\<rparr>"

definition two_quarters :: "featured list" where
  "two_quarters =
     [sale ''Coburg'' ''House'' 700000 ''2016Q2'', sale ''Coburg'' ''House'' 840000 ''2017Q3'']"




section \<open>Properties of the string functions\<close>
















section \<open>Properties of the cleaner\<close>






section \<open>Properties of the feature engine\<close>

lemma quarter_ceiling:
  assumes "1 \<le> m" and "m \<le> 12"
  shows "(m - 1) div 3 + 1 = nat \<lceil>(of_nat m :: rat) / 3\<rceil>"
proof -
  have "\<lceil>(of_nat m :: rat) / 3\<rceil> = int ((m - 1) div 3 + 1)"
  proof (rule ceiling_unique)
    have "3 * ((m - 1) div 3) < m" using assms by presburger
    then have "(of_nat (3 * ((m - 1) div 3)) :: rat) < of_nat m" by (simp only: of_nat_less_iff)
    then show "of_int (int ((m - 1) div 3 + 1)) - 1 < (of_nat m :: rat) / 3" by simp
    have "m \<le> 3 * ((m - 1) div 3 + 1)" using assms by presburger
    then have "(of_nat m :: rat) \<le> of_nat (3 * ((m - 1) div 3 + 1))" by (simp only: of_nat_le_iff)
    then show "(of_nat m :: rat) / 3 \<le> of_int (int ((m - 1) div 3 + 1))" by simp
  qed
  then show ?thesis by simp
qed

lemma parse_month_range: "parse_month s = Some m \<Longrightarrow> 1 \<le> m \<and> m \<le> 12"
  by (auto simp: parse_month_def is_digit_def digit_val_def Let_def split: list.splits if_splits)

lemma strptime_month: "strptime s = Inr t \<Longrightarrow> 1 \<le> month t \<and> month t \<le> 12"
  by (auto simp: strptime_def Let_def split: if_splits option.splits dest: parse_month_range)

lemma to_datetime_month: "to_datetime c = Inr (Some t) \<Longrightarrow> 1 \<le> month t \<and> month t \<le> 12"
  by (auto simp: to_datetime_def split: option.splits if_splits sum.splits dest: strptime_month)

lemma add_features_nth:
  "add_features df = Inr df' \<Longrightarrow>
   length df' = length df \<and>
   (\<forall>i < length df. \<exists>t. to_datetime (Date (df ! i)) = Inr t \<and> df' ! i = add_features_row (df ! i) t)"
proof (induction df arbitrary: df')
  case Nil then show ?case by simp
next
  case (Cons r df)
  from Cons.prems obtain t rest where t: "to_datetime (Date r) = Inr t"
    and rest: "add_features df = Inr rest" and df': "df' = add_features_row r t # rest"
    by (auto split: sum.splits)
  from Cons.IH [OF rest] show ?case
    by (auto simp: df' t nth_Cons split: nat.splits)
qed

lemma add_features_returns:
  "\<forall>r \<in> set df. \<exists>t. to_datetime (Date r) = Inr t \<Longrightarrow> \<exists>df'. add_features df = Inr df'"
  by (induction df) auto


lemma digit_char_val: "is_digit c \<Longrightarrow> digit_char (digit_val c) = c"
  by (simp add: is_digit_def digit_val_def digit_char_def Let_def)

lemma digit_val_lt: "is_digit c \<Longrightarrow> digit_val c < 10"
  by (auto simp: is_digit_def digit_val_def Let_def)

lemma dec_digit: "n < 10 \<Longrightarrow> dec n = [digit_char n]"
  by (simp add: dec.simps)

lemma dec_step: "m \<noteq> 0 \<Longrightarrow> d < 10 \<Longrightarrow> dec (10 * m + d) = dec m @ [digit_char d]"
  by (subst dec.simps) simp

lemma parse_year_dec:
  assumes "parse_year ys = Some y" and "1000 \<le> y"
  shows "dec y = ys"
proof -
  from assms(1) obtain a b c d where ys: "ys = [a, b, c, d]"
    and dg: "is_digit a" "is_digit b" "is_digit c" "is_digit d"
    and y: "y = 1000 * digit_val a + 100 * digit_val b + 10 * digit_val c + digit_val d"
    by (auto simp: parse_year_def split: list.splits if_splits)
  note lt = dg [THEN digit_val_lt]
  have a0: "digit_val a \<noteq> 0" using assms(2) lt by (auto simp: y)
  define A B C D where "A = digit_val a" and "B = digit_val b" and "C = digit_val c"
    and "D = digit_val d"
  have bounds: "A \<noteq> 0" "A < 10" "B < 10" "C < 10" "D < 10"
    using a0 lt by (simp_all add: A_def B_def C_def D_def)
  have 1: "dec (10 * A + B) = [digit_char A, digit_char B]"
    using dec_step [of A B] dec_digit [of A] bounds by simp
  have "10 * A + B \<noteq> 0" using bounds by simp
  from dec_step [OF this, of C] have 2: "dec (10 * (10 * A + B) + C) = [digit_char A, digit_char B, digit_char C]"
    using bounds 1 by simp
  have "10 * (10 * A + B) + C \<noteq> 0" using bounds by simp
  from dec_step [OF this, of D]
  have 3: "dec (10 * (10 * (10 * A + B) + C) + D) = [digit_char A, digit_char B, digit_char C, digit_char D]"
    using bounds 2 by simp
  have "y = 10 * (10 * (10 * A + B) + C) + D"
    by (simp add: y A_def B_def C_def D_def)
  with 3 have "dec y = [digit_char (digit_val a), digit_char (digit_val b),
                     digit_char (digit_val c), digit_char (digit_val d)]"
    by (simp only: A_def B_def C_def D_def)
  then show ?thesis using dg by (simp add: ys digit_char_val)
qed

lemma in_bounds_year: "in_bounds y m d \<Longrightarrow> 1000 \<le> y"
  by (auto simp: in_bounds_def)

lemma strptime_text:
  assumes "strptime s = Inr t"
  shows "\<exists>d_text m_text. s = d_text @ ''/'' @ m_text @ ''/'' @ dec (year t)
           \<and> parse_day d_text = Some (day t) \<and> parse_month m_text = Some (month t)"
proof -
  define ns where "ns = (\<lambda>c. c \<noteq> CHR ''/'')"
  define rest where "rest = dropWhile ns s"
  define rest' where "rest' = dropWhile ns (tl rest)"
  from assms have r: "rest \<noteq> []" and r': "rest' \<noteq> []"
    and pd: "parse_day (takeWhile ns s) = Some (day t)"
    and pm: "parse_month (takeWhile ns (tl rest)) = Some (month t)"
    and py: "parse_year (tl rest') = Some (year t)"
    and ib: "in_bounds (year t) (month t) (day t)"
    by (auto simp: strptime_def Let_def ns_def rest_def rest'_def
             split: if_splits option.splits)
  have h1: "hd rest = CHR ''/''" using r hd_dropWhile [of ns s] by (auto simp: rest_def ns_def)
  have h2: "hd rest' = CHR ''/''" using r' hd_dropWhile [of ns "tl rest"]
    by (auto simp: rest'_def ns_def)
  have "s = takeWhile ns s @ rest" by (simp add: rest_def)
  also have "rest = CHR ''/'' # tl rest" using r h1 by (cases rest) auto
  also have "tl rest = takeWhile ns (tl rest) @ rest'" by (simp add: rest'_def)
  also have "rest' = CHR ''/'' # tl rest'" using r' h2 by (cases rest') auto
  also have "tl rest' = dec (year t)" using parse_year_dec [OF py in_bounds_year [OF ib]] by simp
  finally have "s = takeWhile ns s @ ''/'' @ takeWhile ns (tl rest) @ ''/'' @ dec (year t)"
    by simp
  with pd pm show ?thesis by blast
qed


text \<open>
  C7: when every date cell of the table parses (or is missing), \<open>add_features\<close>
  returns a table, and the quarter label of every row whose date parsed is the year, the
  letter \<open>Q\<close> and the ceiling of the month divided by 3; year and month are the
  numbers written in the date text.
\<close>

theorem add_features_quarter_label:
  assumes "\<forall>r \<in> set df. \<exists>t. to_datetime (Date r) = Inr t"
  shows "\<exists>df'. add_features df = Inr df' \<and> length df' = length df \<and>
           (\<forall>i < length df. \<forall>t. to_datetime (Date (df ! i)) = Inr (Some t) \<longrightarrow>
              1 \<le> month t \<and> month t \<le> 12 \<and>
              Quarter (df' ! i) = dec (year t) @ ''Q'' @ dec (nat \<lceil>(of_nat (month t) :: rat) / 3\<rceil>) \<and>
              (\<exists>d_text m_text. Date (df ! i) = Some (d_text @ ''/'' @ m_text @ ''/'' @ dec (year t))
                 \<and> parse_month m_text = Some (month t)))"
proof -
  from add_features_returns [OF assms] obtain df' where df': "add_features df = Inr df'" ..
  note nth = add_features_nth [OF df']
  have "1 \<le> month t \<and> month t \<le> 12 \<and>
        Quarter (df' ! i) = dec (year t) @ ''Q'' @ dec (nat \<lceil>(of_nat (month t) :: rat) / 3\<rceil>) \<and>
        (\<exists>d_text m_text. Date (df ! i) = Some (d_text @ ''/'' @ m_text @ ''/'' @ dec (year t))
           \<and> parse_month m_text = Some (month t))"
    if i: "i < length df" and t: "to_datetime (Date (df ! i)) = Inr (Some t)" for i t
  proof -
    from nth i t have row: "df' ! i = add_features_row (df ! i) (Some t)" by auto
    have m: "1 \<le> month t \<and> month t \<le> 12" using t by (rule to_datetime_month)
    then have q: "quarter_of t = nat \<lceil>(of_nat (month t) :: rat) / 3\<rceil>"
      unfolding quarter_of_def by (intro quarter_ceiling) auto
    from t obtain s where s: "Date (df ! i) = Some s" and p: "strptime s = Inr t"
      by (auto simp: to_datetime_def split: option.splits if_splits sum.splits)
    from strptime_text [OF p] s
    have "\<exists>d_text m_text. Date (df ! i) = Some (d_text @ ''/'' @ m_text @ ''/'' @ dec (year t))
           \<and> parse_month m_text = Some (month t)" by auto
    with m q show ?thesis by (simp add: row add_features_row_def quarter_label_def)
  qed
  with df' nth show ?thesis by blast
qed

theorem add_features_quarter_label_witness:
  "to_datetime (Date june_sale) = Inr (Some \<lparr>year = 2016, month = 6, day = 15\<rparr>)
   \<and> (\<exists>df'. add_features [june_sale] = Inr df' \<and> Quarter (df' ! 0) = ''2016Q2'')"
proof -
  have t: "to_datetime (Date june_sale) = Inr (Some \<lparr>year = 2016, month = 6, day = 15\<rparr>)"
    by code_simp
  then have h: "\<forall>r \<in> set [june_sale]. \<exists>t. to_datetime (Date r) = Inr t" by simp
  have c: "nat \<lceil>(of_nat 6 :: rat) / 3\<rceil> = 2" by code_simp
  have d: "dec 2016 = ''2016''" "dec 2 = ''2''" by code_simp+
  from add_features_quarter_label [OF h] obtain df' where
    "add_features [june_sale] = Inr df'" and
    "\<forall>i < length [june_sale]. \<forall>t. to_datetime (Date ([june_sale] ! i)) = Inr (Some t) \<longrightarrow>
       Quarter (df' ! i) = dec (year t) @ ''Q'' @ dec (nat \<lceil>(of_nat (month t) :: rat) / 3\<rceil>)"
    by blast
  with t c d have "add_features [june_sale] = Inr df' \<and> Quarter (df' ! 0) = ''2016Q2''"
    by force
  with t show ?thesis by blast
qed

section \<open>Properties of the cohort selector\<close>








lemma set_dropna: "set (dropna cs) = {x. Some x \<in> set cs}"
  by (induction cs rule: dropna.induct) auto






lemma distinct_map_insort_key:
  "distinct (map g (insort_key f x xs)) = (g x \<notin> g ` set xs \<and> distinct (map g xs))"
  by (induction xs) (auto simp: set_insort_key)

lemma distinct_map_sort_key: "distinct (map g (sort_key f xs)) = distinct (map g xs)"
  by (induction xs) (simp_all add: distinct_map_insort_key)




section \<open>Properties of the outlier annotator\<close>

lemma set_group_keys: "set (group_keys key df) = {k. Some k \<in> key ` set df}"
  by (simp add: group_keys_def set_dropna)

lemma map_of_groupby_agg:
  "map_of (groupby_agg key agg df) k =
     (if Some k \<in> key ` set df then Some (agg (group_rows key df k)) else None)"
  by (simp add: groupby_agg_def map_of_map_restrict restrict_map_def set_group_keys)

lemma map_series_suburb_medians:
  "r \<in> set df \<Longrightarrow> Suburb r = Some s \<Longrightarrow>
   map_series (suburb_medians df) (Suburb r) = median (map Price (filter (\<lambda>x. Suburb x = Some s) df))"
  by (force simp: map_series_def suburb_medians_def map_of_groupby_agg group_rows_def)

lemma add_outlier_detection_nth:
  "i < length df \<Longrightarrow>
   add_outlier_detection df ! i =
     featured.extend (df ! i)
       (annotated.fields (map_series (suburb_medians df) (Suburb (df ! i)))
          (price_deviation (Price (df ! i)) (map_series (suburb_medians df) (Suburb (df ! i)))))"
  by (simp add: add_outlier_detection_def Let_def)

lemma extend_fields_sel:
  "Suburb (featured.extend r (annotated.fields m d)) = Suburb r"
  "Price (featured.extend r (annotated.fields m d)) = Price r"
  "Suburb_Median (featured.extend r (annotated.fields m d)) = m"
  "Price_Deviation (featured.extend r (annotated.fields m d)) = d"
  "featured.truncate (featured.extend r (annotated.fields m d)) = r"
  by (simp_all add: featured.defs annotated.defs)

lemma cohort_subset_member:
  "r \<in> set (cohort_subset n df) \<longleftrightarrow>
   r \<in> set df \<and> (\<exists>s. Suburb r = Some s \<and> s \<in> set (get_top_suburbs df n))"
  by (auto simp: cohort_subset_def Let_def isin_def split: option.splits)

text \<open>
  The cohort keeps every row of a suburb it selects, so the median of a selected suburb
  over the cohort subset is its median over the whole table.
\<close>

lemma cohort_subset_keeps_suburb:
  "s \<in> set (get_top_suburbs df n) \<Longrightarrow>
   filter (\<lambda>x. Suburb x = Some s) (cohort_subset n df) = filter (\<lambda>x. Suburb x = Some s) df"
  by (auto simp: cohort_subset_def Let_def isin_def intro: filter_cong)

text \<open>
  C3: every row of the analysis table comes from the cohort subset, its suburb is one of
  the selected suburbs, its \<open>Suburb_Median\<close> is the median price of that suburb over
  the rows of the cohort subset, and its \<open>Price_Deviation\<close> is the price minus that
  median, divided by that median.
\<close>

theorem analysis_dataset_cohort_medians:
  assumes "r \<in> set (analysis_dataset n df)"
  shows "featured.truncate r \<in> set (cohort_subset n df) \<and>
         (\<exists>s. Suburb r = Some s \<and> s \<in> set (get_top_suburbs df n) \<and>
           Suburb_Median r =
             median (map Price (filter (\<lambda>x. Suburb x = Some s) (cohort_subset n df))) \<and>
           Price_Deviation r = fdiv (fsub (Price r) (Suburb_Median r)) (Suburb_Median r))"
proof -
  let ?c = "cohort_subset n df"
  from assms obtain r0 where r0: "r0 \<in> set ?c"
    and r: "r = featured.extend r0
                  (annotated.fields (map_series (suburb_medians ?c) (Suburb r0))
                     (price_deviation (Price r0) (map_series (suburb_medians ?c) (Suburb r0))))"
    by (auto simp: analysis_dataset_def add_outlier_detection_def Let_def)
  from r0 obtain s where s: "Suburb r0 = Some s" and top: "s \<in> set (get_top_suburbs df n)"
    by (auto simp: cohort_subset_member)
  have m: "Suburb_Median r = median (map Price (filter (\<lambda>x. Suburb x = Some s) ?c))"
    using map_series_suburb_medians [OF r0 s] by (simp add: r extend_fields_sel)
  have d: "Price_Deviation r = fdiv (fsub (Price r) (Suburb_Median r)) (Suburb_Median r)"
    by (simp add: r extend_fields_sel price_deviation_def)
  have "featured.truncate r = r0" by (simp add: r extend_fields_sel)
  with r0 s top m d show ?thesis by (simp add: r extend_fields_sel)
qed

theorem analysis_dataset_cohort_medians_witness:
  "coburg_annotated \<in> set (analysis_dataset 2 four_sales)
   \<and> get_top_suburbs four_sales 2 = [''Coburg'', ''Preston'']
   \<and> Suburb coburg_annotated = Some ''Coburg''
   \<and> Suburb_Median coburg_annotated =
       median (map Price (filter (\<lambda>x. Suburb x = Some ''Coburg'') (cohort_subset 2 four_sales)))
   \<and> Suburb_Median coburg_annotated = Fin 650000
   \<and> Price_Deviation coburg_annotated = Fin (3 / 13)"
proof -
  have m: "coburg_annotated \<in> set (analysis_dataset 2 four_sales)" by code_simp
  have t: "get_top_suburbs four_sales 2 = [''Coburg'', ''Preston'']" by code_simp
  have s: "Suburb coburg_annotated = Some ''Coburg''" by code_simp
  have v: "Suburb_Median coburg_annotated = Fin 650000"
    "Price_Deviation coburg_annotated = Fin (3 / 13)" by code_simp+
  from analysis_dataset_cohort_medians [OF m] s
  have "Suburb_Median coburg_annotated =
       median (map Price (filter (\<lambda>x. Suburb x = Some ''Coburg'') (cohort_subset 2 four_sales)))"
    by auto
  with m t s v show ?thesis by blast
qed

lemma add_outlier_detection_zip:
  "add_outlier_detection df =
     map (\<lambda>(r, m, d). featured.extend r (annotated.fields m d))
       (zip df (zip (map (\<lambda>r. map_series (suburb_medians df) (Suburb r)) df)
                    (map2 price_deviation (map Price df)
                       (map (\<lambda>r. map_series (suburb_medians df) (Suburb r)) df))))"
  by (rule nth_equalityI) (simp_all add: add_outlier_detection_def Let_def)

lemma truncate_add_outlier_detection:
  "map featured.truncate (add_outlier_detection df) = df"
  by (rule nth_equalityI) (simp_all add: add_outlier_detection_def Let_def extend_fields_sel)

text \<open>
  C10: called with a reference to a table in memory, \<open>add_outlier_detection\<close> returns
  a reference to a new frame and leaves every frame that was in memory, the input
  among them, as it was. The new frame has the rows of the input, in the same order, and
  the two columns \<open>Suburb_Median\<close> and \<open>Price_Deviation\<close>; read as a table it is
  the table of annotated rows, and dropping the two added fields from that table gives
  the input rows back.
\<close>

theorem add_outlier_detection_only_adds:
  assumes "df < length mem"
  shows "\<exists>mem'. add_outlier_detection_object mem df = Inr (mem', length mem)
           \<and> length mem' = Suc (length mem)
           \<and> (\<forall>a < length mem. mem' ! a = mem ! a)
           \<and> rows (mem' ! length mem) = rows (mem ! df)
           \<and> table_of (mem' ! length mem) = Some (add_outlier_detection (rows (mem ! df)))
           \<and> map featured.truncate (add_outlier_detection (rows (mem ! df))) = rows (mem ! df)
           \<and> length (add_outlier_detection (rows (mem ! df))) = length (rows (mem ! df))"
proof -
  let ?df = "rows (mem ! df)"
  let ?ms = "map (\<lambda>r. map_series (suburb_medians ?df) (Suburb r)) ?df"
  let ?ds = "map2 price_deviation (map Price ?df) ?ms"
  let ?new = "(mem ! df)\<lparr>Suburb_Median_column := Some ?ms, Price_Deviation_column := Some ?ds\<rparr>"
  let ?mem' = "mem @ [?new]"
  have run: "add_outlier_detection_object mem df = Inr (?mem', length mem)"
    by (simp add: add_outlier_detection_object_def copy_def read_column_def Let_def nth_append)
  have old: "\<forall>a < length mem. ?mem' ! a = mem ! a" by (simp add: nth_append)
  have tab: "table_of (?mem' ! length mem) = Some (add_outlier_detection ?df)"
    by (simp add: table_of_def add_outlier_detection_zip)
  have len: "length (add_outlier_detection ?df) = length ?df"
    by (simp add: add_outlier_detection_def Let_def)
  show ?thesis
    using run old tab len truncate_add_outlier_detection [of ?df]
    by (intro exI [of _ ?mem']) simp
qed

theorem add_outlier_detection_only_adds_witness:
  "(0::nat) < length [cohort_frame]
   \<and> (\<exists>mem'. add_outlier_detection_object [cohort_frame] 0 = Inr (mem', 1)
         \<and> mem' ! 0 = cohort_frame
         \<and> rows (mem' ! 1) = rows cohort_frame
         \<and> table_of (mem' ! 1) = Some (add_outlier_detection (rows cohort_frame)))
   \<and> coburg_annotated \<in> set (add_outlier_detection (rows cohort_frame))"
proof -
  have h: "(0::nat) < length [cohort_frame]" by simp
  have c: "coburg_annotated \<in> set (add_outlier_detection (rows cohort_frame))" by code_simp
  from add_outlier_detection_only_adds [OF h] h c show ?thesis by auto
qed

section \<open>Properties of the aggregator\<close>

lemma groupby_agg_id:
  "groupby_agg key id df = map (\<lambda>k. (k, filter (\<lambda>r. key r = Some k) df)) (group_keys key df)"
  by (simp add: groupby_agg_def group_rows_def)

lemma count_notna_prices:
  "count_notna (map Price (filter (\<lambda>r. Suburb r = Some k) df)) =
     length (filter (\<lambda>r. Suburb r = Some k \<and> Price r \<noteq> NaN) df)"
  by (simp add: count_notna_def filter_map o_def conj_commute)

lemma suburb_comparison_row:
  assumes "row \<in> set (suburb_comparison df)"
  shows "Some (group_key row) \<in> Suburb ` set df \<and>
         Transaction_Count row =
           count_notna (map Price (filter (\<lambda>r. Suburb r = Some (group_key row)) df)) \<and>
         Median_Price row =
           fround (median (map Price (filter (\<lambda>r. Suburb r = Some (group_key row)) df)))"
proof -
  from assms obtain k where "k \<in> set (group_keys Suburb df)"
    and "group_key row = k"
    and "Transaction_Count row = count_notna (map Price (filter (\<lambda>r. Suburb r = Some k) df))"
    and "Median_Price row = fround (median (map Price (filter (\<lambda>r. Suburb r = Some k) df)))"
    by (auto simp: suburb_comparison_def Let_def groupby_agg_id)
  then show ?thesis by (auto simp: set_group_keys)
qed

text \<open>
  C9, as the claim states it, fails on a table with a row whose price is missing: the
  count column counts prices, not rows.
\<close>

theorem suburb_comparison_count_unpriced:
  "map (\<lambda>row. (group_key row, Transaction_Count row)) (suburb_comparison [unpriced_sale])
     = [(''Coburg'', 0)]
   \<and> transaction_count [unpriced_sale] ''Coburg'' = 1"
  by code_simp

text \<open>
  C9, amended: every row of the suburb table belongs to a suburb of the input, and its
  count column is the number of input rows of that suburb whose price is not missing;
  when no row of the suburb lacks a price, it is the number of input rows of the suburb.
\<close>

theorem suburb_comparison_count:
  assumes "row \<in> set (suburb_comparison df)"
  shows "Some (group_key row) \<in> Suburb ` set df \<and>
         Transaction_Count row =
           length (filter (\<lambda>r. Suburb r = Some (group_key row) \<and> Price r \<noteq> NaN) df) \<and>
         ((\<forall>r \<in> set df. Suburb r = Some (group_key row) \<longrightarrow> Price r \<noteq> NaN) \<longrightarrow>
            Transaction_Count row = transaction_count df (group_key row))"
proof -
  note row = suburb_comparison_row [OF assms]
  then have c: "Transaction_Count row =
           length (filter (\<lambda>r. Suburb r = Some (group_key row) \<and> Price r \<noteq> NaN) df)"
    by (simp add: count_notna_prices)
  have "filter (\<lambda>r. Suburb r = Some (group_key row) \<and> Price r \<noteq> NaN) df
        = filter (\<lambda>r. Suburb r = Some (group_key row)) df"
    if "\<forall>r \<in> set df. Suburb r = Some (group_key row) \<longrightarrow> Price r \<noteq> NaN"
    using that by (intro filter_cong) auto
  with c row show ?thesis by (simp add: transaction_count_def)
qed

lemma suburb_comparison_keys:
  "distinct (map group_key (suburb_comparison df)) \<and>
   set (map group_key (suburb_comparison df)) = {s. Some s \<in> Suburb ` set df}"
proof -
  let ?mk = "\<lambda>(k, g). \<lparr>group_key = k,
                     Median_Price = fround (median (map Price g)),
                     Mean_Price = fround (mean (map Price g)),
                     Transaction_Count = count_notna (map Price g),
                     Median_Price_per_sqm = fround (median (map Price_per_sqm g)),
                     Median_Rooms = fround (median (map Rooms g)),
                     Distance_to_CBD = fround (first_valid (map Distance g))\<rparr>"
  have k: "map group_key (map ?mk (groupby_agg Suburb id df)) = group_keys Suburb df"
    by (simp add: groupby_agg_id o_def)
  have d: "distinct (group_keys Suburb df)" by (simp add: group_keys_def)
  have "distinct (map group_key (suburb_comparison df))"
    unfolding suburb_comparison_def Let_def distinct_map_sort_key k by (rule d)
  moreover have "set (map group_key (suburb_comparison df)) = set (group_keys Suburb df)"
    unfolding suburb_comparison_def Let_def set_map set_sort
    using k by (metis set_map)
  ultimately show ?thesis by (simp add: set_group_keys)
qed

theorem suburb_comparison_count_witness:
  "\<lparr>group_key = ''Coburg'', Median_Price = Fin 650000, Mean_Price = Fin 650000,
     Transaction_Count = 2, Median_Price_per_sqm = Fin 1300, Median_Rooms = Fin 3,
     Distance_to_CBD = Fin 9\<rparr> \<in> set (suburb_comparison four_sales)
   \<and> list_all (\<lambda>r. Price r \<noteq> NaN) four_sales
   \<and> transaction_count four_sales ''Coburg'' = 2"
proof -
  let ?row = "\<lparr>group_key = ''Coburg'', Median_Price = Fin 650000, Mean_Price = Fin 650000,
     Transaction_Count = 2, Median_Price_per_sqm = Fin 1300, Median_Rooms = Fin 3,
     Distance_to_CBD = Fin 9\<rparr>"
  have m: "?row \<in> set (suburb_comparison four_sales)" by code_simp
  have l: "list_all (\<lambda>r. Price r \<noteq> NaN) four_sales" by code_simp
  then have p: "\<forall>r \<in> set four_sales. Suburb r = Some ''Coburg'' \<longrightarrow> Price r \<noteq> NaN"
    by (simp add: list_all_iff)
  from suburb_comparison_count [OF m] p
  have "transaction_count four_sales ''Coburg'' = 2" by simp
  with m l show ?thesis by blast
qed

section \<open>Properties of the insights\<close>

lemma quarterly_trends_keys:
  "map group_key (quarterly_trends df) = group_keys (\<lambda>r. Some (Quarter r)) df"
  by (simp add: quarterly_trends_def groupby_agg_id o_def)

lemma set_quarter_keys: "set (group_keys (\<lambda>r. Some (Quarter r)) df) = Quarter ` set df"
  by (auto simp: set_group_keys)

lemma filter_eq_distinct: "distinct xs \<Longrightarrow> q \<in> set xs \<Longrightarrow> filter (\<lambda>k. k = q) xs = [q]"
  by (induction xs) (auto simp: filter_empty_conv)

lemma first_median_price_absent:
  assumes "q \<notin> Quarter ` set df"
  shows "first_median_price (quarterly_trends df) q = Inl IndexError"
proof -
  have "set (map group_key (quarterly_trends df)) = Quarter ` set df"
    by (simp only: quarterly_trends_keys set_quarter_keys)
  with assms have "q \<notin> set (map group_key (quarterly_trends df))" by blast
  then have "filter (\<lambda>row. group_key row = q) (quarterly_trends df) = []"
    by (auto simp: filter_empty_conv)
  then show ?thesis by (simp add: first_median_price_def)
qed

lemma first_median_price_present:
  assumes "q \<in> Quarter ` set df"
  shows "first_median_price (quarterly_trends df) q =
           Inr (fround (median (map Price (filter (\<lambda>r. Quarter r = q) df))))"
proof -
  let ?mk = "\<lambda>k. \<lparr>group_key = k,
             Median_Price = fround (median (map Price (filter (\<lambda>r. Quarter r = k) df))),
             Mean_Price = fround (mean (map Price (filter (\<lambda>r. Quarter r = k) df))),
             Transaction_Count = count_notna (map Price (filter (\<lambda>r. Quarter r = k) df)),
             Median_Price_per_sqm = fround (median (map Price_per_sqm (filter (\<lambda>r. Quarter r = k) df)))\<rparr>"
  let ?ks = "group_keys (\<lambda>r. Some (Quarter r)) df"
  have t: "quarterly_trends df = map ?mk ?ks"
    by (simp add: quarterly_trends_def groupby_agg_id)
  have "distinct ?ks" by (simp add: group_keys_def)
  moreover have "q \<in> set ?ks" using assms by (simp only: set_quarter_keys)
  ultimately have "filter (\<lambda>k. k = q) ?ks = [q]"
    by (rule filter_eq_distinct)
  then have "filter (\<lambda>row. group_key row = q) (quarterly_trends df) = [?mk q]"
    by (simp add: t filter_map o_def)
  then show ?thesis by (simp add: first_median_price_def)
qed

lemma market_trend_returns:
  assumes "''2016Q2'' \<in> Quarter ` set df" and "''2017Q3'' \<in> Quarter ` set df"
  shows "market_trend df =
           (let q2_2016 = fround (median (map Price (filter (\<lambda>r. Quarter r = ''2016Q2'') df)));
                q3_2017 = fround (median (map Price (filter (\<lambda>r. Quarter r = ''2017Q3'') df)))
            in Inr (fmul (fdiv (fsub q3_2017 q2_2016) q2_2016) (Fin 100), q2_2016, q3_2017))"
  by (simp add: market_trend_def Let_def first_median_price_present [OF assms(1)]
        first_median_price_present [OF assms(2)])

lemma market_trend_example:
  "market_trend two_quarters = Inr (Fin 20, Fin 700000, Fin 840000)"
  by code_simp

text \<open>
  C6: when the quarterly table has no row for \<open>2016Q2\<close> or none for \<open>2017Q3\<close>,
  the market growth insight raises IndexError, a lookup error of Python, and no growth
  figure is produced.
\<close>

theorem market_trend_lookup_error:
  assumes "''2016Q2'' \<notin> Quarter ` set df \<or> ''2017Q3'' \<notin> Quarter ` set df"
  shows "market_trend df = Inl IndexError"
proof (cases "''2016Q2'' \<in> Quarter ` set df")
  case False
  then show ?thesis by (simp add: market_trend_def Let_def first_median_price_absent)
next
  case True
  with assms have "''2017Q3'' \<notin> Quarter ` set df" by blast
  then show ?thesis
    by (simp add: market_trend_def Let_def first_median_price_absent
          first_median_price_present [OF True])
qed

theorem market_trend_lookup_error_witness:
  "''2017Q3'' \<notin> Quarter ` set four_sales
   \<and> ''2016Q2'' \<in> Quarter ` set four_sales
   \<and> market_trend four_sales = Inl IndexError"
proof -
  have a: "''2017Q3'' \<notin> Quarter ` set four_sales" by code_simp
  have b: "''2016Q2'' \<in> Quarter ` set four_sales" by code_simp
  from a have h: "''2016Q2'' \<notin> Quarter ` set four_sales \<or> ''2017Q3'' \<notin> Quarter ` set four_sales" ..
  from market_trend_lookup_error [OF h] a b show ?thesis by blast
qed



























section \<open>Ratios and rounding\<close>















end
